theory Spec2Isabelle
  imports Complex_Main "HOL-Library.Word"
begin

section \<open>Size-constrained image re-encoding (shrink\_to\_size.py, ajustar\_img.py)\<close>

text \<open>
  The two source files hold the same six functions, statement for statement;
  one embedding covers both. Pillow and the floating point unit are outside
  the repository: what the code asks of them is a field of the record
  \<open>env\<close>, and the code's own control flow is written over those fields.

  The embedding starts from the decoded image and ends with the buffer handed
  to \<open>write_bytes\<close>; reading and writing files is not part of it. The codec
  is a function: it is deterministic and it returns a buffer, so a run in
  which Pillow itself raises (an unknown format, a mode the format cannot
  store) is not a run of the model. What the code's own arithmetic raises
  (\<open>ZeroDivisionError\<close>, \<open>ValueError\<close>) is a result of the model.
\<close>

subsection \<open>Data\<close>

text \<open>
  Python \<open>bytes\<close>; the bands of one pixel; keyword arguments and
  \<open>img.info\<close>. A dictionary \<open>save_kwargs\<close> holds encoder options: Python
  binds a keyword that names a parameter of the called function to that
  parameter, or raises \<open>TypeError\<close> when the parameter is given twice, so
  such a keyword is never an encoder option.
\<close>

type_synonym bytes = "8 word list"

type_synonym pixel = "8 word list"

datatype pyval = PBool bool | PInt int | PStr string

type_synonym kwargs = "string \<rightharpoonup> pyval"

text \<open>
  A decoded \<open>Image.Image\<close>: \<open>img.mode\<close>, \<open>img.size\<close> (width, height),
  \<open>img.info\<close> and the raster, read by coordinates.
\<close>

record image =
  mode :: string
  img_size :: "int \<times> int"
  info :: kwargs
  px :: "int \<Rightarrow> int \<Rightarrow> pixel"

text \<open>
  The collaborators. \<open>pil_convert img m\<close> is the \<open>info\<close> and raster of
  \<open>img.convert(m)\<close>; \<open>pil_getbands\<close> the band names of a mode;
  \<open>pil_resize img sz\<close> the raster of \<open>img.resize(sz, Image.LANCZOS)\<close>;
  \<open>pil_save img format kwargs\<close> the buffer written by
  \<open>img.save(buf, format=format, **kwargs)\<close>, a deterministic codec;
  \<open>pil_SAVE\<close> the keys of the registry \<open>Image.SAVE\<close>.
  A float is the rational number it denotes: \<open>fl_round\<close> rounds an exact
  result to the nearest float, \<open>fl_sqrt\<close> is \<open>math.sqrt\<close> on a
  non-negative argument.
\<close>

record env =
  pil_convert :: "image \<Rightarrow> string \<Rightarrow> kwargs \<times> (int \<Rightarrow> int \<Rightarrow> pixel)"
  pil_getbands :: "string \<Rightarrow> string list"
  pil_resize :: "image \<Rightarrow> int \<times> int \<Rightarrow> int \<Rightarrow> int \<Rightarrow> pixel"
  pil_save :: "image \<Rightarrow> string \<Rightarrow> kwargs \<Rightarrow> bytes"
  pil_SAVE :: "string list"
  fl_round :: "rat \<Rightarrow> rat"
  fl_sqrt :: "rat \<Rightarrow> rat"

datatype error = ValueError | ZeroDivisionError

subsection \<open>Strings and keyword dictionaries\<close>

text \<open>\<open>str.upper\<close> on the ASCII letters that format names are written in.\<close>

definition upper_char :: "char \<Rightarrow> char" where
  "upper_char c =
     (let n = (of_char c :: nat) in if 97 \<le> n \<and> n \<le> 122 then char_of (n - 32) else c)"

definition upper :: "string \<Rightarrow> string" where
  "upper s = map upper_char s"

text \<open>\<open>dict.setdefault\<close>: the value is stored only under a key not yet present.\<close>

definition setdefault :: "kwargs \<Rightarrow> string \<Rightarrow> pyval \<Rightarrow> kwargs" where
  "setdefault kw k v = (case kw k of None \<Rightarrow> kw(k \<mapsto> v) | Some _ \<Rightarrow> kw)"

subsection \<open>bytes\_of\_save\<close>

definition bytes_of_save :: "env \<Rightarrow> image \<Rightarrow> string \<Rightarrow> int \<Rightarrow> kwargs \<Rightarrow> bytes" where
  "bytes_of_save L img fmt quality save_kwargs =
     (let kwargs = save_kwargs; fmt_u = upper fmt in
      if fmt_u \<in> set [''JPEG'', ''JPG''] then
        pil_save L img ''JPEG''
          (setdefault (setdefault (setdefault kwargs ''optimize'' (PBool True))
             ''quality'' (PInt quality)) ''progressive'' (PBool True))
      else if fmt_u = ''WEBP'' then
        pil_save L img ''WEBP''
          (setdefault (setdefault (setdefault kwargs ''quality'' (PInt quality))
             ''method'' (PInt 6)) ''lossless'' (PBool False))
      else
        pil_save L img fmt_u
          (if ''quality'' \<in> set (pil_SAVE L)
           then setdefault kwargs ''quality'' (PInt quality) else kwargs))"

subsection \<open>binary\_search\_quality\<close>

text \<open>
  The \<open>for _ in range(max_iters)\<close> loop over the state \<open>(best, lo, hi)\<close>;
  the counter is the number of iterations left.
\<close>

fun search_loop ::
  "env \<Rightarrow> image \<Rightarrow> string \<Rightarrow> int \<Rightarrow> kwargs \<Rightarrow> nat \<Rightarrow>
   (bytes \<times> int) option \<times> int \<times> int \<Rightarrow> (bytes \<times> int) option \<times> int \<times> int" where
  "search_loop L img fmt target_bytes kw 0 s = s"
| "search_loop L img fmt target_bytes kw (Suc n) (best, lo, hi) =
     (let mid = (lo + hi) div 2;
          data = bytes_of_save L img fmt mid kw;
          sz = int (length data)
      in if sz \<le> target_bytes
         then search_loop L img fmt target_bytes kw n (Some (data, mid), mid + 1, hi)
         else search_loop L img fmt target_bytes kw n (best, lo, mid - 1))"

text \<open>The result \<open>(None, None)\<close> is \<open>None\<close>; a pair \<open>(data, quality)\<close> is \<open>Some\<close>.\<close>

definition binary_search_quality ::
  "env \<Rightarrow> image \<Rightarrow> string \<Rightarrow> int \<Rightarrow> int \<Rightarrow> int \<Rightarrow> int \<Rightarrow> kwargs \<Rightarrow> (bytes \<times> int) option" where
  "binary_search_quality L img fmt target_bytes q_min q_max max_iters kw =
     (case fst (search_loop L img fmt target_bytes kw (nat max_iters) (None, q_min, q_max)) of
        None \<Rightarrow>
          (let data = bytes_of_save L img fmt q_min kw in
           if int (length data) \<le> target_bytes then Some (data, q_min) else None)
      | Some best \<Rightarrow> Some best)"



text \<open>The qualities the loop encodes at, in the order of the iterations.\<close>

fun probes :: "env \<Rightarrow> image \<Rightarrow> string \<Rightarrow> int \<Rightarrow> kwargs \<Rightarrow> nat \<Rightarrow> int \<Rightarrow> int \<Rightarrow> int list" where
  "probes L img fmt target_bytes kw 0 lo hi = []"
| "probes L img fmt target_bytes kw (Suc n) lo hi =
     (let mid = (lo + hi) div 2 in
      mid # (if int (length (bytes_of_save L img fmt mid kw)) \<le> target_bytes
             then probes L img fmt target_bytes kw n (mid + 1) hi
             else probes L img fmt target_bytes kw n lo (mid - 1)))"

subsection \<open>Pillow operations the code calls\<close>

text \<open>
  What the documented Pillow interface fixes is written out: \<open>convert\<close>
  keeps the size and gives the requested mode, \<open>Image.new\<close> fills a raster
  with one colour, \<open>split()[-1]\<close> is the last band as an \<open>L\<close> image,
  \<open>resize\<close> keeps the mode and gives the requested size.
\<close>

definition convert :: "env \<Rightarrow> image \<Rightarrow> string \<Rightarrow> image" where
  "convert L img m =
     \<lparr>mode = m, img_size = img_size img,
      info = fst (pil_convert L img m), px = snd (pil_convert L img m)\<rparr>"

definition new_image :: "string \<Rightarrow> int \<times> int \<Rightarrow> pixel \<Rightarrow> image" where
  "new_image m sz colour = \<lparr>mode = m, img_size = sz, info = Map.empty, px = (\<lambda>x y. colour)\<rparr>"

definition split_last :: "image \<Rightarrow> image" where
  "split_last img =
     \<lparr>mode = ''L'', img_size = img_size img, info = info img,
      px = (\<lambda>x y. [last (px img x y)])\<rparr>"

definition resize :: "env \<Rightarrow> image \<Rightarrow> int \<times> int \<Rightarrow> image" where
  "resize L img sz = \<lparr>mode = mode img, img_size = sz, info = info img, px = pil_resize L img sz\<rparr>"

text \<open>
  \<open>bg.paste(img, mask=m)\<close> with an \<open>L\<close> mask on an \<open>RGB\<close> image: inside
  the pasted box each of the three colour bands is Pillow's 8-bit blend of the
  old and the new value, weighted by the mask (\<open>MULDIV255\<close> and \<open>BLEND8\<close>
  of Pillow's compositing code; the products are computed in \<open>unsigned int\<close>).
\<close>

definition MULDIV255 :: "nat \<Rightarrow> nat \<Rightarrow> nat" where
  "MULDIV255 a b = (let tmp = a * b + 128 in (tmp div 256 + tmp) div 256)"

definition BLEND8 :: "8 word \<Rightarrow> 8 word \<Rightarrow> 8 word \<Rightarrow> 8 word" where
  "BLEND8 msk in1 in2 =
     of_nat (MULDIV255 (unat in1) (255 - unat msk) + MULDIV255 (unat in2) (unat msk))"

definition paste :: "image \<Rightarrow> image \<Rightarrow> image \<Rightarrow> image" where
  "paste dst src msk =
     dst\<lparr>px := (\<lambda>x y.
        if 0 \<le> x \<and> x < fst (img_size src) \<and> 0 \<le> y \<and> y < snd (img_size src)
        then map (\<lambda>i. BLEND8 (hd (px msk x y)) (px dst x y ! i) (px src x y ! i)) [0, 1, 2]
        else px dst x y)\<rparr>"

subsection \<open>load\_image and ensure\_mode\_for\_format\<close>

text \<open>\<open>opened\<close> is the image \<open>Image.open(path)\<close> decoded.\<close>

definition load_image :: "env \<Rightarrow> image \<Rightarrow> image" where
  "load_image L opened = (if mode opened = ''P'' then convert L opened ''RGBA'' else opened)"

definition ensure_mode_for_format :: "env \<Rightarrow> image \<Rightarrow> string \<Rightarrow> image" where
  "ensure_mode_for_format L img fmt0 =
     (let fmt = upper fmt0 in
      if fmt \<in> set [''JPEG'', ''JPG''] then
        (if mode img \<in> set [''RGBA'', ''LA'']
            \<or> (mode img = ''P'' \<and> info img ''transparency'' \<noteq> None)
         then
           (let bg = new_image ''RGB'' (img_size img) [255, 255, 255];
                img1 = (if mode img \<noteq> ''RGBA'' then convert L img ''RGBA'' else img)
            in paste bg img1 (split_last img1))
         else if mode img \<notin> set [''RGB''] then convert L img ''RGB''
         else img)
      else if fmt = ''WEBP'' then img
      else
        (if mode img \<notin> set [''RGB'', ''RGBA'']
         then convert L img (if ''A'' \<in> set (pil_getbands L (mode img)) then ''RGBA'' else ''RGB'')
         else img))"

subsection \<open>scale\_by\_factor\<close>

text \<open>
  \<open>int(x)\<close> of a float truncates towards zero; \<open>w * factor\<close> converts the
  integer to a float and rounds the product.
\<close>

definition py_int :: "rat \<Rightarrow> int" where
  "py_int x = (if 0 \<le> x then \<lfloor>x\<rfloor> else \<lceil>x\<rceil>)"

definition float_of_int :: "env \<Rightarrow> int \<Rightarrow> rat" where
  "float_of_int L n = fl_round L (of_int n)"

definition fl_mul :: "env \<Rightarrow> rat \<Rightarrow> rat \<Rightarrow> rat" where
  "fl_mul L a b = fl_round L (a * b)"

definition scale_by_factor :: "env \<Rightarrow> image \<Rightarrow> rat \<Rightarrow> image" where
  "scale_by_factor L img factor =
     (let w = fst (img_size img); h = snd (img_size img);
          new_w = max 1 (py_int (fl_mul L (float_of_int L w) factor));
          new_h = max 1 (py_int (fl_mul L (float_of_int L h) factor))
      in if (new_w, new_h) = (w, h)
         then resize L img (max 1 (w - 1), max 1 (h - 1))
         else resize L img (new_w, new_h))"

subsection \<open>compress\_to\_target\<close>

text \<open>
  What the call returns and writes: \<open>written\<close> is the buffer given to
  \<open>output_path.write_bytes\<close>, the other fields are the returned tuple.
\<close>

record outcome =
  out_path :: string
  written :: bytes
  size_kb :: int
  final_size :: "int \<times> int"
  quality_used :: int

text \<open>
  The scale factor of one pass. \<open>target_bytes / current_bytes\<close> raises
  \<open>ZeroDivisionError\<close> on a zero divisor, \<open>math.sqrt\<close> raises
  \<open>ValueError\<close> on a negative argument.
\<close>

definition backoff_factor :: "env \<Rightarrow> int \<Rightarrow> int \<Rightarrow> error + rat" where
  "backoff_factor L target_bytes current_bytes =
     (if current_bytes = 0 then Inl ZeroDivisionError
      else
        (let ratio = fl_round L (of_int target_bytes / of_int current_bytes) in
         if ratio < 0 then Inl ValueError
         else
           (let factor = fl_mul L (fl_sqrt L ratio) (fl_round L (98 / 100));
                factor = min factor (fl_round L (95 / 100));
                factor = max factor (1 / 2)
            in Inr factor)))"

text \<open>
  The \<open>while\<close> loop over \<open>(current_bytes, passes, cur_img, data_low)\<close>.
  \<open>Inl\<close> of the result is a \<open>return\<close> from inside the loop, \<open>Inr\<close> the
  state the loop is left with. The counter \<open>n\<close> is not in the source: it
  counts the iterations entered.
\<close>

function backoff_loop ::
  "env \<Rightarrow> string \<Rightarrow> string \<Rightarrow> int \<Rightarrow> int \<Rightarrow> int \<Rightarrow> int \<Rightarrow> kwargs \<Rightarrow> nat \<Rightarrow>
   int \<times> int \<times> image \<times> bytes \<Rightarrow>
   error + nat \<times> (outcome + int \<times> int \<times> image \<times> bytes)" where
  "backoff_loop L output_path fmt target_bytes quality_min quality_max max_passes kw n
     (current_bytes, passes, cur_img, data_low) =
     (if current_bytes > target_bytes \<and> passes < max_passes then
        (case backoff_factor L target_bytes current_bytes of
           Inl e \<Rightarrow> Inl e
         | Inr factor \<Rightarrow>
            (let cur_img1 = scale_by_factor L cur_img factor in
             case binary_search_quality L cur_img1 fmt target_bytes quality_min quality_max 8 kw of
               Some (data_quality, q_used) \<Rightarrow>
                 Inr (Suc n, Inl \<lparr>out_path = output_path, written = data_quality,
                                  size_kb = int (length data_quality) div 1024,
                                  final_size = img_size cur_img1, quality_used = q_used\<rparr>)
             | None \<Rightarrow>
                 (let data_low1 = bytes_of_save L cur_img1 fmt quality_min kw in
                  backoff_loop L output_path fmt target_bytes quality_min quality_max max_passes kw
                    (Suc n) (int (length data_low1), passes + 1, cur_img1, data_low1))))
      else Inr (n, Inr (current_bytes, passes, cur_img, data_low)))"
  by pat_completeness auto
termination
  by (relation "measure (\<lambda>(L, output_path, fmt, target_bytes, quality_min, quality_max,
        max_passes, kw, n, current_bytes, passes, cur_img, data_low). nat (max_passes - passes))")
     auto

definition compress_to_target ::
  "env \<Rightarrow> image \<Rightarrow> string \<Rightarrow> int \<Rightarrow> string \<Rightarrow> int option \<Rightarrow> int \<Rightarrow> int \<Rightarrow> int \<Rightarrow> kwargs \<Rightarrow>
   error + outcome" where
  "compress_to_target L opened output_path target_kb fmt0 max_width quality_min quality_max
     max_passes kw =
     (let img = load_image L opened;
          fmt = upper fmt0;
          img = ensure_mode_for_format L img fmt
      in
      case (case max_width of
              None \<Rightarrow> Inr img
            | Some mw \<Rightarrow>
                if fst (img_size img) > mw then
                  (if float_of_int L (fst (img_size img)) = 0 then Inl ZeroDivisionError
                   else Inr (scale_by_factor L img
                          (fl_round L (float_of_int L mw / float_of_int L (fst (img_size img))))))
                else Inr img) of
        Inl e \<Rightarrow> Inl e
      | Inr img \<Rightarrow>
         (let target_bytes = target_kb * 1024 in
          case binary_search_quality L img fmt target_bytes quality_min quality_max 8 kw of
            Some (data_quality, q_used) \<Rightarrow>
              Inr \<lparr>out_path = output_path, written = data_quality,
                   size_kb = int (length data_quality) div 1024,
                   final_size = img_size img, quality_used = q_used\<rparr>
          | None \<Rightarrow>
             (let data_low = bytes_of_save L img fmt quality_min kw;
                  current_bytes = int (length data_low)
              in
              case backoff_loop L output_path fmt target_bytes quality_min quality_max max_passes
                     kw 0 (current_bytes, 0, img, data_low) of
                Inl e \<Rightarrow> Inl e
              | Inr (n, Inl r) \<Rightarrow> Inr r
              | Inr (n, Inr (current_bytes, passes, cur_img, data_low)) \<Rightarrow>
                  Inr \<lparr>out_path = output_path, written = data_low,
                       size_kb = int (length data_low) div 1024,
                       final_size = img_size cur_img, quality_used = quality_min\<rparr>)))"

text \<open>
  Rounding to the nearest float is monotone and leaves the integers up to
  \<open>2^53\<close> as they are.
\<close>

definition fl_ok :: "env \<Rightarrow> bool" where
  "fl_ok L \<longleftrightarrow>
     (\<forall>x y. x \<le> y \<longrightarrow> fl_round L x \<le> fl_round L y) \<and>
     (\<forall>n::int. \<bar>n\<bar> \<le> 2 ^ 53 \<longrightarrow> fl_round L (of_int n) = of_int n)"

subsection \<open>A small environment to run the functions on\<close>

text \<open>
  A codec whose buffer has one byte more than width times quality, the
  quality read from the keyword it was given (75 when it was given none); a
  conversion that keeps the colour bands and appends or drops the last one;
  a resampling that repeats the top left pixel; exact arithmetic, and for
  the square root the mean of the argument and 1.
\<close>

definition demo_quality :: "kwargs \<Rightarrow> int" where
  "demo_quality kw = (case kw ''quality'' of Some (PInt q) \<Rightarrow> q | _ \<Rightarrow> 75)"

definition demo_env :: env where
  "demo_env =
     \<lparr>pil_convert = (\<lambda>img m. (info img,
          (\<lambda>x y. if m = ''RGBA'' then take 3 (px img x y) @ [255] else take 3 (px img x y)))),
      pil_getbands = (\<lambda>m. map (\<lambda>c. [c]) m),
      pil_resize = (\<lambda>img sz x y. px img 0 0),
      pil_save = (\<lambda>img f kw. replicate (Suc (nat (fst (img_size img) * demo_quality kw))) 0),
      pil_SAVE = [''BMP'', ''GIF'', ''JPEG'', ''MPO'', ''PNG'', ''TIFF'', ''WEBP''],
      fl_round = (\<lambda>x. x),
      fl_sqrt = (\<lambda>x. (x + 1) / 2)\<rparr>"

text \<open>A one by one \<open>RGB\<close> image and a two by one \<open>RGBA\<close> image.\<close>

definition demo_rgb :: image where
  "demo_rgb = \<lparr>mode = ''RGB'', img_size = (1, 1), info = Map.empty, px = (\<lambda>x y. [10, 20, 30])\<rparr>"

definition demo_rgba :: image where
  "demo_rgba =
     \<lparr>mode = ''RGBA'', img_size = (2, 1), info = Map.empty,
      px = (\<lambda>x y. if x = 0 then [10, 20, 30, 0] else [40, 50, 60, 255])\<rparr>"

section \<open>The quality search\<close>

subsection \<open>What the loop returns\<close>

text \<open>
  The loop keeps the last probe that fitted: its first component is the
  encoding at the last fitting quality of \<open>probes\<close>, or the \<open>best\<close> it
  started from when none fitted.
\<close>

lemma search_loop_last_fit:
  "fst (search_loop L img fmt tb kw n (best, lo, hi)) =
     (case filter (\<lambda>q. int (length (bytes_of_save L img fmt q kw)) \<le> tb)
             (probes L img fmt tb kw n lo hi) of
        [] \<Rightarrow> best
      | x # xs \<Rightarrow> Some (bytes_of_save L img fmt (last (x # xs)) kw, last (x # xs)))"
proof (induction n arbitrary: best lo hi)
  case 0
  show ?case by simp
next
  case (Suc n)
  show ?case
    by (simp add: Let_def Suc.IH split: list.splits)
qed

lemma search_loop_none:
  "fst (search_loop L img fmt tb kw n (None, lo, hi)) = None \<longleftrightarrow>
     (\<forall>q \<in> set (probes L img fmt tb kw n lo hi). tb < int (length (bytes_of_save L img fmt q kw)))"
proof -
  let ?xs = "filter (\<lambda>q. int (length (bytes_of_save L img fmt q kw)) \<le> tb)
               (probes L img fmt tb kw n lo hi)"
  have "fst (search_loop L img fmt tb kw n (None, lo, hi)) = None \<longleftrightarrow> ?xs = []"
    by (simp add: search_loop_last_fit split: list.splits)
  also have "\<dots> \<longleftrightarrow> (\<forall>q \<in> set (probes L img fmt tb kw n lo hi).
      \<not> int (length (bytes_of_save L img fmt q kw)) \<le> tb)"
    by (simp only: filter_empty_conv)
  finally show ?thesis by (simp only: not_le)
qed

lemma search_loop_some:
  assumes "fst (search_loop L img fmt tb kw n (None, lo, hi)) = Some (d, q)"
  shows "q \<in> set (probes L img fmt tb kw n lo hi) \<and> d = bytes_of_save L img fmt q kw
         \<and> int (length d) \<le> tb"
proof -
  let ?fit = "\<lambda>q. int (length (bytes_of_save L img fmt q kw)) \<le> tb"
  let ?xs = "filter ?fit (probes L img fmt tb kw n lo hi)"
  from assms have ne: "?xs \<noteq> []" and q: "q = last ?xs"
    and d: "d = bytes_of_save L img fmt (last ?xs) kw"
    by (auto simp: search_loop_last_fit split: list.splits)
  from ne have "last ?xs \<in> set ?xs" by (rule last_in_set)
  with q d show ?thesis by auto
qed

text \<open>
  Every probe lies between \<open>lo - 1\<close> and \<open>q_max\<close>: once the bounds have
  crossed the loop goes on encoding at \<open>lo - 1\<close>, which is \<open>q_min - 1\<close>
  as long as nothing has fitted.
\<close>

lemma probes_range:
  "lo \<le> hi + 2 \<Longrightarrow> hi \<le> q_max \<Longrightarrow> lo \<le> q_max + 1 \<Longrightarrow>
   q \<in> set (probes L img fmt tb kw n lo hi) \<Longrightarrow> lo - 1 \<le> q \<and> q \<le> q_max"
proof (induction n arbitrary: lo hi)
  case 0
  then show ?case by simp
next
  case (Suc n)
  let ?mid = "(lo + hi) div 2"
  have mid: "lo - 1 \<le> ?mid" "?mid \<le> q_max" "?mid \<le> hi + 1" "lo \<le> ?mid + 1"
    using Suc.prems(1-3) by linarith+
  show ?case
  proof (cases "q = ?mid")
    case True
    with mid show ?thesis by simp
  next
    case False
    show ?thesis
    proof (cases "int (length (bytes_of_save L img fmt ?mid kw)) \<le> tb")
      case True
      with False Suc.prems(4) have "q \<in> set (probes L img fmt tb kw n (?mid + 1) hi)"
        by (simp add: Let_def)
      moreover have "?mid + 1 \<le> hi + 2" "?mid + 1 \<le> q_max + 1" using mid by linarith+
      ultimately have "?mid + 1 - 1 \<le> q \<and> q \<le> q_max"
        using Suc.IH [of "?mid + 1" hi] Suc.prems(2) by blast
      with mid show ?thesis by linarith
    next
      case nofit: False
      with False Suc.prems(4) have "q \<in> set (probes L img fmt tb kw n lo (?mid - 1))"
        by (simp add: Let_def)
      moreover have "lo \<le> ?mid - 1 + 2" "?mid - 1 \<le> q_max" using mid by linarith+
      ultimately show ?thesis
        using Suc.IH [of lo "?mid - 1"] Suc.prems(3) by blast
    qed
  qed
qed

lemma binary_search_quality_range:
  assumes "q_min \<le> q_max"
    and "binary_search_quality L img fmt tb q_min q_max max_iters kw = Some (d, q)"
  shows "q_min - 1 \<le> q \<and> q \<le> q_max"
proof (cases "fst (search_loop L img fmt tb kw (nat max_iters) (None, q_min, q_max))")
  case None
  with assms(2) have "q = q_min"
    by (auto simp: binary_search_quality_def Let_def split: if_splits)
  with assms(1) show ?thesis by simp
next
  case (Some b)
  with assms(2) have "fst (search_loop L img fmt tb kw (nat max_iters) (None, q_min, q_max)) = Some (d, q)"
    by (simp add: binary_search_quality_def)
  then have "q \<in> set (probes L img fmt tb kw (nat max_iters) q_min q_max)"
    using search_loop_some by blast
  then show ?thesis
    using probes_range [of q_min q_max q_max q L img fmt tb kw "nat max_iters"] assms(1) by simp
qed

lemma demo_save_monotone:
  "q1 \<le> q2 \<Longrightarrow>
   length (bytes_of_save demo_env demo_rgb ''JPEG'' q1 Map.empty)
     \<le> length (bytes_of_save demo_env demo_rgb ''JPEG'' q2 Map.empty)"
  by (simp add: bytes_of_save_def demo_env_def demo_rgb_def demo_quality_def setdefault_def
      upper_def upper_char_def Let_def)

text \<open>
  C1. Claim: for valid bounds \<open>q_min \<le> q_max\<close>, a quality that
  \<open>binary_search_quality\<close> returns lies in \<open>[q_min, q_max]\<close>. The code
  does not keep it: with the default bounds 5 and 95 and the default 8
  iterations, on a codec (monotone in the quality) whose encoding fits the
  budget of 5 bytes at quality 4 and not at quality 5, the probes are
  50, 27, 15, 9, 6, 5, 4, 4 and the search returns quality 4, below \<open>q_min\<close>,
  although the encoding at \<open>q_min\<close> itself is too large.
\<close>

theorem binary_search_quality_below_q_min:
  "binary_search_quality demo_env demo_rgb ''JPEG'' 5 5 95 8 Map.empty = Some (replicate 5 0, 4)
   \<and> probes demo_env demo_rgb ''JPEG'' 5 Map.empty 8 5 95 = [50, 27, 15, 9, 6, 5, 4, 4]
   \<and> length (bytes_of_save demo_env demo_rgb ''JPEG'' 5 Map.empty) = 6"
  by code_simp

subsection \<open>Leaving the loop when the bounds cross\<close>







subsection \<open>The failure marker\<close>

text \<open>
  C3. \<open>binary_search_quality\<close> returns the failure marker exactly when no
  probe of the loop fitted the budget and the encoding at \<open>q_min\<close> exceeds
  it as well; any other result is a pair whose bytes fit the budget, and
  they are the encoding at the returned quality.
\<close>

theorem failure_marker_iff:
  "(binary_search_quality L img fmt tb q_min q_max max_iters kw = None \<longleftrightarrow>
      (\<forall>q \<in> set (probes L img fmt tb kw (nat max_iters) q_min q_max).
          tb < int (length (bytes_of_save L img fmt q kw)))
      \<and> tb < int (length (bytes_of_save L img fmt q_min kw)))
   \<and> (\<forall>d q. binary_search_quality L img fmt tb q_min q_max max_iters kw = Some (d, q) \<longrightarrow>
          int (length d) \<le> tb \<and> d = bytes_of_save L img fmt q kw)"
proof (cases "fst (search_loop L img fmt tb kw (nat max_iters) (None, q_min, q_max))")
  case None
  then have "\<forall>q \<in> set (probes L img fmt tb kw (nat max_iters) q_min q_max).
          tb < int (length (bytes_of_save L img fmt q kw))"
    by (simp add: search_loop_none)
  with None show ?thesis
    by (auto simp: binary_search_quality_def Let_def)
next
  case (Some b)
  obtain d q where b: "b = (d, q)" by (cases b)
  from Some b have "fst (search_loop L img fmt tb kw (nat max_iters) (None, q_min, q_max)) = Some (d, q)"
    by simp
  from search_loop_some [OF this]
  have in_probes: "q \<in> set (probes L img fmt tb kw (nat max_iters) q_min q_max)"
    and d: "d = bytes_of_save L img fmt q kw" and fit: "int (length d) \<le> tb"
    by blast+
  from in_probes d fit
  have "\<not> (\<forall>q \<in> set (probes L img fmt tb kw (nat max_iters) q_min q_max).
          tb < int (length (bytes_of_save L img fmt q kw)))"
    by force
  with Some b d fit show ?thesis
    by (simp add: binary_search_quality_def)
qed

theorem failure_marker_iff_witness:
  "binary_search_quality demo_env demo_rgb ''JPEG'' 4 5 95 8 Map.empty = None
   \<and> int (length (replicate 50 (0::8 word))) \<le> 50
   \<and> replicate 50 0 = bytes_of_save demo_env demo_rgb ''JPEG'' 49 Map.empty"
proof -
  have "(\<forall>q \<in> set (probes demo_env demo_rgb ''JPEG'' 4 Map.empty (nat 8) 5 95).
           4 < int (length (bytes_of_save demo_env demo_rgb ''JPEG'' q Map.empty)))
        \<and> 4 < int (length (bytes_of_save demo_env demo_rgb ''JPEG'' 5 Map.empty))"
    by code_simp
  then have none: "binary_search_quality demo_env demo_rgb ''JPEG'' 4 5 95 8 Map.empty = None"
    using failure_marker_iff [of demo_env demo_rgb "''JPEG''" 4 5 95 8 Map.empty] by blast
  have "binary_search_quality demo_env demo_rgb ''JPEG'' 50 5 95 8 Map.empty
        = Some (replicate 50 0, 49)"
    by code_simp
  then have "int (length (replicate 50 (0::8 word))) \<le> 50
      \<and> replicate 50 0 = bytes_of_save demo_env demo_rgb ''JPEG'' 49 Map.empty"
    using failure_marker_iff [of demo_env demo_rgb "''JPEG''" 50 5 95 8 Map.empty] by blast
  with none show ?thesis by blast
qed

section \<open>Formats and modes\<close>

subsection \<open>Upper case\<close>

lemma lower_letter_mod: "97 \<le> (n::nat) \<and> n \<le> 122 \<Longrightarrow> (n - 32) mod 256 = n - 32"
  by (intro mod_less) linarith

lemma upper_char_idem: "upper_char (upper_char c) = upper_char c"
proof (cases "97 \<le> (of_char c :: nat) \<and> (of_char c :: nat) \<le> 122")
  case True
  have "(of_char (char_of (of_char c - 32 :: nat)) :: nat) = (of_char c - 32) mod 256"
    by (rule of_char_of)
  also have "\<dots> = of_char c - 32" using True by (rule lower_letter_mod)
  finally have e: "(of_char (char_of (of_char c - 32 :: nat)) :: nat) = of_char c - 32" .
  have "upper_char c = char_of (of_char c - 32 :: nat)"
    using True by (simp add: upper_char_def Let_def)
  moreover have "upper_char (char_of (of_char c - 32 :: nat)) = char_of (of_char c - 32 :: nat)"
  proof -
    have "\<not> (97 \<le> (of_char c - 32 :: nat))" using True by linarith
    then show ?thesis unfolding upper_char_def Let_def e by simp
  qed
  ultimately show ?thesis by simp
next
  case False
  then have "upper_char c = c" unfolding upper_char_def Let_def by (rule if_not_P)
  then show ?thesis by simp
qed


lemma upper_idem: "upper (upper s) = upper s"
  by (simp add: upper_def upper_char_idem)

text \<open>
  C10. The format string is read through \<open>upper\<close> only:
  \<open>ensure_mode_for_format\<close>, \<open>bytes_of_save\<close> and \<open>compress_to_target\<close>
  give the same result on a format string and on its upper case form.
\<close>

theorem format_case_insensitive:
  "ensure_mode_for_format L img (upper f) = ensure_mode_for_format L img f
   \<and> bytes_of_save L img (upper f) quality kw = bytes_of_save L img f quality kw
   \<and> compress_to_target L opened output_path target_kb (upper f) max_width quality_min
        quality_max max_passes kw
      = compress_to_target L opened output_path target_kb f max_width quality_min
        quality_max max_passes kw"
  by (simp add: ensure_mode_for_format_def bytes_of_save_def compress_to_target_def upper_idem)

lemma upper_jpeg: "upper ''jpeg'' = ''JPEG'' \<and> upper ''Jpeg'' = ''JPEG'' \<and> upper ''JPEG'' = ''JPEG''"
  by code_simp

subsection \<open>The mode normalizer\<close>

text \<open>
  C9. On every branch (flatten, convert, pass through) the image returned by
  \<open>ensure_mode_for_format\<close> has the width and height of its input.
\<close>

theorem ensure_mode_keeps_size: "img_size (ensure_mode_for_format L img fmt) = img_size img"
  by (simp add: ensure_mode_for_format_def convert_def new_image_def paste_def Let_def)

lemma mode_ensure_jpeg:
  "upper fmt \<in> set [''JPEG'', ''JPG''] \<Longrightarrow> mode (ensure_mode_for_format L img fmt) = ''RGB''"
  by (simp add: ensure_mode_for_format_def convert_def new_image_def paste_def Let_def)

lemma mode_ensure_other:
  "upper fmt \<notin> set [''JPEG'', ''JPG''] \<Longrightarrow> upper fmt \<noteq> ''WEBP'' \<Longrightarrow>
   mode (ensure_mode_for_format L img fmt) \<in> set [''RGB'', ''RGBA'']"
  by (simp add: ensure_mode_for_format_def convert_def Let_def)

text \<open>
  C7. \<open>ensure_mode_for_format\<close> is idempotent: applied to its own result,
  for the same format, it returns that result unchanged, raster included.
\<close>

theorem ensure_mode_idempotent:
  "ensure_mode_for_format L (ensure_mode_for_format L img fmt) fmt = ensure_mode_for_format L img fmt"
proof (cases "upper fmt \<in> set [''JPEG'', ''JPG'']")
  case True
  from mode_ensure_jpeg [OF True, of L img] True show ?thesis
    by (simp add: ensure_mode_for_format_def [of L "ensure_mode_for_format L img fmt"])
next
  case False
  show ?thesis
  proof (cases "upper fmt = ''WEBP''")
    case True
    then show ?thesis by (simp add: ensure_mode_for_format_def)
  next
    case notwebp: False
    from mode_ensure_other [OF False notwebp, of L img] False notwebp show ?thesis
      by (simp add: ensure_mode_for_format_def [of L "ensure_mode_for_format L img fmt"])
  qed
qed

subsection \<open>Flattening transparency for JPEG\<close>








subsection \<open>Quality for the other formats\<close>

text \<open>
  \<open>Image.register_save\<close> stores an encoder under the upper case name of
  its format, so \<open>quality\<close> is not a key of \<open>Image.SAVE\<close>.
\<close>

lemma quality_never_registered:
  assumes "\<forall>k \<in> set (pil_SAVE L). upper k = k"
  shows "''quality'' \<notin> set (pil_SAVE L)"
proof
  assume "''quality'' \<in> set (pil_SAVE L)"
  with assms have "upper ''quality'' = ''quality''" by blast
  moreover have "upper ''quality'' = ''QUALITY''" by code_simp
  ultimately show False by simp
qed

lemma bytes_of_save_other:
  "upper fmt \<notin> set [''JPEG'', ''JPG''] \<Longrightarrow> upper fmt \<noteq> ''WEBP'' \<Longrightarrow>
   ''quality'' \<notin> set (pil_SAVE L) \<Longrightarrow>
   bytes_of_save L img fmt quality kw = pil_save L img (upper fmt) kw"
  by (simp add: bytes_of_save_def)

text \<open>
  C8. Claim: for a format outside the JPEG family and WEBP, the quality is
  passed to the encoder if and only if that encoder accepts a quality. The
  code tests \<open>"quality" in Image.SAVE\<close>, whether a format named
  \<open>quality\<close> is registered; the registry is keyed by format names, so the
  quality is dropped (\<open>bytes_of_save_other\<close>), also for an encoder that
  reads it. Here the encoder of \<open>MPO\<close> gives 11 bytes at quality 10 and 91
  at quality 90, and \<open>bytes_of_save\<close> gives its default (76 bytes at
  quality 75) for both.
\<close>

theorem quality_dropped_for_other_formats:
  "''quality'' \<notin> set (pil_SAVE demo_env)
   \<and> bytes_of_save demo_env demo_rgb ''MPO'' 10 Map.empty = replicate 76 0
   \<and> bytes_of_save demo_env demo_rgb ''MPO'' 90 Map.empty = replicate 76 0
   \<and> pil_save demo_env demo_rgb ''MPO'' [''quality'' \<mapsto> PInt 10] = replicate 11 0
   \<and> pil_save demo_env demo_rgb ''MPO'' [''quality'' \<mapsto> PInt 90] = replicate 91 0"
  by code_simp

section \<open>Downscaling\<close>

lemma fl_ok_mono: "fl_ok L \<Longrightarrow> x \<le> y \<Longrightarrow> fl_round L x \<le> fl_round L y"
  by (simp add: fl_ok_def)

lemma fl_ok_exact: "fl_ok L \<Longrightarrow> \<bar>n\<bar> \<le> 2 ^ 53 \<Longrightarrow> fl_round L (of_int n) = of_int n"
  by (simp add: fl_ok_def)

lemma fl_ok_nonneg:
  assumes "fl_ok L" and "0 \<le> x"
  shows "0 \<le> fl_round L x"
proof -
  have "fl_round L (of_int 0) = of_int 0" using assms(1) by (intro fl_ok_exact) simp_all
  moreover have "fl_round L 0 \<le> fl_round L x" using assms by (rule fl_ok_mono)
  ultimately show ?thesis by simp
qed

lemma demo_fl_ok: "fl_ok demo_env"
  by (simp add: fl_ok_def demo_env_def)

lemma py_int_floor: "0 \<le> x \<Longrightarrow> py_int x = \<lfloor>x\<rfloor>"
  by (simp add: py_int_def)

lemma scaled_dimension:
  assumes "fl_ok L" and "0 < factor" and "factor < 1" and "1 \<le> w" and "w \<le> 2 ^ 53"
  shows "py_int (fl_mul L (float_of_int L w) factor) = \<lfloor>fl_round L (of_int w * factor)\<rfloor>"
    and "\<lfloor>fl_round L (of_int w * factor)\<rfloor> \<le> w"
proof -
  have ex: "fl_round L (of_int w) = of_int w" using assms(1,4,5) by (intro fl_ok_exact) simp_all
  have "0 \<le> of_int w * factor" using assms(2,4) by simp
  then have nn: "0 \<le> fl_round L (of_int w * factor)" using assms(1) by (intro fl_ok_nonneg)
  with ex show "py_int (fl_mul L (float_of_int L w) factor) = \<lfloor>fl_round L (of_int w * factor)\<rfloor>"
    by (simp add: fl_mul_def float_of_int_def py_int_floor)
  have "of_int w * factor \<le> of_int w * 1" using assms(3,4) by (intro mult_left_mono) simp_all
  then have "fl_round L (of_int w * factor) \<le> fl_round L (of_int w)"
    using assms(1) by (intro fl_ok_mono) simp_all
  with ex have "fl_round L (of_int w * factor) \<le> of_int w" by simp
  then show "\<lfloor>fl_round L (of_int w * factor)\<rfloor> \<le> w" by (simp add: floor_le_iff)
qed

text \<open>
  C5. For a factor strictly between 0 and 1 and an image at least one
  pixel wide and high, \<open>scale_by_factor\<close> returns an image no wider and no
  higher than its input and at least one by one; when the computed
  dimensions (the floor of dimension times factor, at least 1) are those of
  the input, each dimension is reduced by exactly one pixel, to 1 at least,
  and otherwise the computed dimensions are used. The product is the rounded
  one: rounding is monotone and exact on the integers up to \<open>2^53\<close>
  (\<open>fl_ok\<close>), and the dimensions are below that bound.
\<close>

theorem scale_by_factor_shrinks:
  assumes "fl_ok L" and "0 < factor" and "factor < 1"
    and "img_size img = (w, h)" and "1 \<le> w" and "w \<le> 2 ^ 53" and "1 \<le> h" and "h \<le> 2 ^ 53"
  shows "(let new_w = max 1 \<lfloor>fl_round L (of_int w * factor)\<rfloor>;
              new_h = max 1 \<lfloor>fl_round L (of_int h * factor)\<rfloor>;
              out = scale_by_factor L img factor
          in fst (img_size out) \<le> w \<and> snd (img_size out) \<le> h
             \<and> 1 \<le> fst (img_size out) \<and> 1 \<le> snd (img_size out)
             \<and> ((new_w, new_h) = (w, h) \<longrightarrow> img_size out = (max 1 (w - 1), max 1 (h - 1)))
             \<and> ((new_w, new_h) \<noteq> (w, h) \<longrightarrow> img_size out = (new_w, new_h)))"
proof -
  note sw = scaled_dimension [OF assms(1-3) assms(5,6)]
  note sh = scaled_dimension [OF assms(1-3) assms(7,8)]
  show ?thesis
    using sw(2) sh(2) assms(5,7)
    by (auto simp: scale_by_factor_def Let_def assms(4) sw(1) sh(1) resize_def)
qed

theorem scale_by_factor_shrinks_witness:
  "img_size (scale_by_factor demo_env demo_rgba (1 / 2)) = (1, 1)
   \<and> img_size (scale_by_factor demo_env demo_rgb (1 / 2)) = (1, 1)"
proof -
  have f: "(0::rat) < 1 / 2" "(1::rat) / 2 < 1" by simp_all
  have a: "img_size demo_rgba = (2, 1)" and b: "img_size demo_rgb = (1, 1)"
    by (simp_all add: demo_rgba_def demo_rgb_def)
  have n: "(1::int) \<le> 2" "(2::int) \<le> 2 ^ 53" "(1::int) \<le> 1" "(1::int) \<le> 2 ^ 53" by simp_all
  have r: "fl_round demo_env = (\<lambda>x. x)" by (simp add: demo_env_def)
  from scale_by_factor_shrinks [OF demo_fl_ok f a n] scale_by_factor_shrinks [OF demo_fl_ok f b n(3,4) n(3,4)]
  show ?thesis
    unfolding Let_def r by simp
qed

section \<open>The resolution backoff loop\<close>


lemma binary_search_quality_None:
  assumes "binary_search_quality L img fmt tb q_min q_max max_iters kw = None"
  shows "tb < int (length (bytes_of_save L img fmt q_min kw))"
  using assms
  by (auto simp: binary_search_quality_def Let_def split: option.splits if_splits)








text \<open>
  Without a positive width the optional first downscale can divide by zero.
\<close>

lemma compress_to_target_zero_width:
  "compress_to_target demo_env (demo_rgb\<lparr>img_size := (0, 1)\<rparr>) ''out.jpg'' 70 ''JPEG''
     (Some (- 1)) 5 95 6 Map.empty = Inl ZeroDivisionError"
  by code_simp


end
